theory Spec2Isabelle
  imports Complex_Main "HOL-Library.Word"
begin

section \<open>Checkpoints (Checkpoint.cc)\<close>

text \<open>
  Simulation time (\<^verbatim>\<open>gazebo::common::Time\<close>) and \<^verbatim>\<open>double\<close> are both read as real
  numbers of seconds: rounding, infinities and NaN are outside this development.
  \<^verbatim>\<open>Time::Zero\<close> is \<open>0\<close>; a default-constructed time is zero as well.
\<close>

type_synonym Time = real

text \<open>
  What a checkpoint asks of its transport node (\<^verbatim>\<open>ignNode\<close>): the calls are recorded in
  the order the code makes them.
\<close>

datatype action =
    Subscribe string
  | Unsubscribe string
  | Request string bool

text \<open>
  The fields of \<^verbatim>\<open>Checkpoint\<close> and \<^verbatim>\<open>ContainCheckpoint\<close> that Checkpoint.cc reads and
  writes. \<open>subscribedTopics\<close> is the part of the transport node the code reads back
  (\<^verbatim>\<open>ignNode.SubscribedTopics()\<close>); a node holds a topic at most once.
\<close>

record ContainCheckpoint =
  number :: nat
  weight :: real
  startTime :: Time
  endTime :: Time
  ns :: string
  enabled :: bool
  containDone :: bool
  subscribedTopics :: "string list"

text \<open>
  The constructors: \<^verbatim>\<open>number\<close> and \<^verbatim>\<open>weight\<close> are taken from the arguments, the
  namespace is set when the configuration has one (the warning is not modelled), the
  times are zero and both flags are false.
\<close>

definition ContainCheckpoint_new :: "real \<Rightarrow> string option \<Rightarrow> nat \<Rightarrow> ContainCheckpoint" where
  "ContainCheckpoint_new w nsopt n =
     \<lparr> number = n, weight = w, startTime = 0, endTime = 0,
       ns = (case nsopt of None \<Rightarrow> [] | Some s \<Rightarrow> s),
       enabled = False, containDone = False, subscribedTopics = [] \<rparr>"

text \<open>\<^verbatim>\<open>Checkpoint::Score\<close>; \<open>simTime\<close> is what \<^verbatim>\<open>get_world()->SimTime()\<close> returns.\<close>

definition Score :: "Time \<Rightarrow> ContainCheckpoint \<Rightarrow> real" where
  "Score simTime cp =
     (let end' = (if endTime cp = 0 then simTime else endTime cp);
          elapsedSeconds = end' - startTime cp
      in elapsedSeconds * weight cp)"

text \<open>\<^verbatim>\<open>Checkpoint::Start\<close> (the console message is not modelled).\<close>

definition Start :: "Time \<Rightarrow> ContainCheckpoint \<Rightarrow> ContainCheckpoint" where
  "Start simTime cp = cp\<lparr>startTime := simTime\<rparr>"

text \<open>
  The callback \<^verbatim>\<open>cb\<close> of the enable service and \<^verbatim>\<open>OnContain\<close>: both are run by the
  transport layer, between two calls of \<^verbatim>\<open>Check\<close>.
\<close>

definition EnableCallback :: "bool \<Rightarrow> ContainCheckpoint \<Rightarrow> ContainCheckpoint" where
  "EnableCallback result cp = (if result then cp\<lparr>enabled := \<not> enabled cp\<rparr> else cp)"

definition OnContain :: "bool \<Rightarrow> ContainCheckpoint \<Rightarrow> ContainCheckpoint" where
  "OnContain msg cp = cp\<lparr>containDone := msg\<rparr>"

text \<open>
  \<^verbatim>\<open>ContainCheckpoint::Check\<close>: the value returned, the calls made on the node, and
  the checkpoint afterwards.
\<close>

definition Check :: "ContainCheckpoint \<Rightarrow> bool \<times> action list \<times> ContainCheckpoint" where
  "Check cp =
     (let (acts1, cp1) =
            (if \<not> enabled cp \<and> \<not> containDone cp
             then ([Subscribe (ns cp @ ''/contain''), Request (ns cp @ ''/enable'') True],
                   cp\<lparr>subscribedTopics := List.insert (ns cp @ ''/contain'') (subscribedTopics cp)\<rparr>)
             else ([], cp));
          (acts2, cp2) =
            (if enabled cp1 \<and> containDone cp1
             then (map Unsubscribe (subscribedTopics cp1) @ [Request (ns cp1 @ ''/enable'') False],
                   cp1\<lparr>subscribedTopics := []\<rparr>)
             else ([], cp1))
      in (containDone cp2, acts1 @ acts2, cp2))"

text \<open>
  A checkpoint's life as the calls it receives: a tick that checks it, a message on the
  contain topic, a reply to an enable request.
\<close>

datatype cp_event = CheckEv | ContainEv bool | AckEv bool

fun cp_step :: "cp_event \<Rightarrow> ContainCheckpoint \<Rightarrow> (bool \<times> action list) list \<times> ContainCheckpoint" where
  "cp_step CheckEv cp = (case Check cp of (r, acts, cp') \<Rightarrow> ([(r, acts)], cp'))"
| "cp_step (ContainEv b) cp = ([], OnContain b cp)"
| "cp_step (AckEv b) cp = ([], EnableCallback b cp)"

fun cp_run :: "cp_event list \<Rightarrow> ContainCheckpoint \<Rightarrow> (bool \<times> action list) list \<times> ContainCheckpoint" where
  "cp_run [] cp = ([], cp)"
| "cp_run (e # es) cp =
     (case cp_step e cp of (out, cp') \<Rightarrow>
        (case cp_run es cp' of (outs, cp'') \<Rightarrow> (out @ outs, cp'')))"

fun enabling :: "action \<Rightarrow> bool" where
  "enabling (Subscribe t) = True"
| "enabling (Request t b) = b"
| "enabling (Unsubscribe t) = False"

section \<open>The competition (CompetitionPlugin.cc)\<close>

datatype error = OutOfRange

text \<open>
  \<^verbatim>\<open>v[i]\<close> on a \<^verbatim>\<open>std::vector\<close>: the index is an \<^verbatim>\<open>int\<close> expression converted to
  \<^verbatim>\<open>size_t\<close>, so a negative one is far out of range; out of range is an error here.
\<close>

definition at_index :: "'a list \<Rightarrow> int \<Rightarrow> error + 'a" where
  "at_index xs i = (if 0 \<le> i \<and> i < int (length xs) then Inr (xs ! nat i) else Inl OutOfRange)"

record ScoreMsg =
  msg_checkpoints :: "real list"
  msg_score :: real

text \<open>
  \<^verbatim>\<open>CompetitionPluginPrivate\<close>, with the function-local static \<^verbatim>\<open>lastScorePubTime\<close> of
  \<^verbatim>\<open>OnUpdate\<close> (\<open>None\<close> until the declaration is first reached).
\<close>

record CompetitionPluginPrivate =
  pickUpLocation :: string
  checkpoints :: "ContainCheckpoint list"
  current :: "8 word"
  scoreFreq :: real
  lastScorePubTime :: "Time option"

text \<open>
  \<^verbatim>\<open>CompetitionPlugin::OnNewTaskRosService\<close>: the value returned, the plugin and the
  response's \<^verbatim>\<open>pick_up_location\<close> afterwards. \<open>simTime\<close> is the world's time when the
  service is called.
\<close>

definition OnNewTaskRosService ::
  "Time \<Rightarrow> CompetitionPluginPrivate \<Rightarrow> string \<Rightarrow> error + (bool \<times> CompetitionPluginPrivate \<times> string)" where
  "OnNewTaskRosService simTime d res =
     (if current d \<noteq> 0 then Inr (False, d, res)
      else
        let d1 = d\<lparr>current := 1\<rparr>;
            i = uint (current d1) - 1
        in case at_index (checkpoints d1) i of
             Inl e \<Rightarrow> Inl e
           | Inr cp \<Rightarrow>
               Inr (True,
                    d1\<lparr>checkpoints := (checkpoints d1)[nat i := Start simTime cp]\<rparr>,
                    pickUpLocation d1))"

text \<open>
  The end of \<^verbatim>\<open>OnUpdate\<close>, from the declaration of \<^verbatim>\<open>lastScorePubTime\<close> on.
  \<^verbatim>\<open>1/scoreFreq\<close> with a zero frequency is infinite in the code, so nothing is published.
\<close>

definition publishScore ::
  "Time \<Rightarrow> CompetitionPluginPrivate \<Rightarrow> CompetitionPluginPrivate \<times> ScoreMsg option" where
  "publishScore simTime d =
     (let last = (case lastScorePubTime d of None \<Rightarrow> simTime | Some t \<Rightarrow> t);
          d1 = d\<lparr>lastScorePubTime := Some last\<rparr>
      in if scoreFreq d1 = 0 \<or> simTime - last < 1 / scoreFreq d1 then (d1, None)
         else
           let scores = map (Score simTime) (checkpoints d1);
               total = foldl (+) 0 scores
           in (d1\<lparr>lastScorePubTime := Some simTime\<rparr>,
               Some \<lparr> msg_checkpoints = scores, msg_score = total \<rparr>))"

text \<open>
  \<^verbatim>\<open>CompetitionPlugin::OnUpdate\<close>: the plugin afterwards, the calls the checked
  checkpoint made on its node, and the score message if one was published.
\<close>

definition OnUpdate ::
  "Time \<Rightarrow> CompetitionPluginPrivate \<Rightarrow> error + (CompetitionPluginPrivate \<times> action list \<times> ScoreMsg option)" where
  "OnUpdate simTime d =
     (if current d = 0 then Inr (d, [], None)
      else
        let i = uint (current d) - 1
        in case at_index (checkpoints d) i of
             Inl e \<Rightarrow> Inl e
           | Inr cp \<Rightarrow>
               (case Check cp of (r, acts, cp') \<Rightarrow>
                  let d1 = d\<lparr>checkpoints := (checkpoints d)[nat i := cp']\<rparr>
                  in if r then
                       let d2 = d1\<lparr>current := current d1 + 1\<rparr>
                       in if unat (current d2) > length (checkpoints d2)
                          then (case publishScore simTime (d2\<lparr>current := 0\<rparr>) of
                                  (d3, m) \<Rightarrow> Inr (d3, acts, m))
                          else
                            let j = uint (current d2) - 1
                            in (case at_index (checkpoints d2) j of
                                  Inl e \<Rightarrow> Inl e
                                | Inr c \<Rightarrow>
                                    (case publishScore simTime
                                            (d2\<lparr>checkpoints := (checkpoints d2)[nat j := Start simTime c]\<rparr>) of
                                       (d3, m) \<Rightarrow> Inr (d3, acts, m)))
                     else (case publishScore simTime d1 of (d3, m) \<Rightarrow> Inr (d3, acts, m))))"

text \<open>
  A run of the competition: ticks, and the transport's deliveries to the checkpoint at
  a position of the vector (from 0). The counter beside the plugin is the number of
  ticks so far on which the checked checkpoint's \<^verbatim>\<open>Check\<close> returned true.
\<close>

datatype event = Tick Time | Contain nat bool | Ack nat bool

definition checkPasses :: "CompetitionPluginPrivate \<Rightarrow> bool" where
  "checkPasses d =
     (current d \<noteq> 0 \<and>
      (case at_index (checkpoints d) (uint (current d) - 1) of
         Inl e \<Rightarrow> False
       | Inr cp \<Rightarrow> fst (Check cp)))"

fun deliver :: "(ContainCheckpoint \<Rightarrow> ContainCheckpoint) \<Rightarrow> nat \<Rightarrow> CompetitionPluginPrivate \<Rightarrow> CompetitionPluginPrivate" where
  "deliver f i d =
     (if i < length (checkpoints d) then d\<lparr>checkpoints := (checkpoints d)[i := f (checkpoints d ! i)]\<rparr>
      else d)"

fun step :: "event \<Rightarrow> CompetitionPluginPrivate \<times> nat \<Rightarrow> error + (CompetitionPluginPrivate \<times> nat)" where
  "step (Tick t) (d, n) =
     (case OnUpdate t d of
        Inl e \<Rightarrow> Inl e
      | Inr (d', acts, m) \<Rightarrow> Inr (d', if checkPasses d then Suc n else n))"
| "step (Contain i b) (d, n) = Inr (deliver (OnContain b) i d, n)"
| "step (Ack i b) (d, n) = Inr (deliver (EnableCallback b) i d, n)"

fun run :: "event list \<Rightarrow> CompetitionPluginPrivate \<times> nat \<Rightarrow> error + (CompetitionPluginPrivate \<times> nat)" where
  "run [] s = Inr s"
| "run (e # es) s = (case step e s of Inl err \<Rightarrow> Inl err | Inr s' \<Rightarrow> run es s')"


section \<open>The following actor (FollowActorPlugin.cc)\<close>

text \<open>
  The vectors, boxes and angles of the mathematics library the plugin calls, by their
  documented meaning over the reals. \<open>Normalize\<close> leaves a vector alone when its length
  is within the library's tolerance of zero.
\<close>

record Vector3d =
  vx :: real
  vy :: real
  vz :: real

definition vadd :: "Vector3d \<Rightarrow> Vector3d \<Rightarrow> Vector3d" where
  "vadd a b = \<lparr> vx = vx a + vx b, vy = vy a + vy b, vz = vz a + vz b \<rparr>"

definition vsub :: "Vector3d \<Rightarrow> Vector3d \<Rightarrow> Vector3d" where
  "vsub a b = \<lparr> vx = vx a - vx b, vy = vy a - vy b, vz = vz a - vz b \<rparr>"

definition vscale :: "Vector3d \<Rightarrow> real \<Rightarrow> Vector3d" where
  "vscale a k = \<lparr> vx = vx a * k, vy = vy a * k, vz = vz a * k \<rparr>"

definition Vector3d_One :: Vector3d where
  "Vector3d_One = \<lparr> vx = 1, vy = 1, vz = 1 \<rparr>"

definition Length :: "Vector3d \<Rightarrow> real" where
  "Length a = sqrt (vx a * vx a + vy a * vy a + vz a * vz a)"

definition Normalize :: "Vector3d \<Rightarrow> Vector3d" where
  "Normalize a =
     (let d = Length a
      in if \<bar>d - 0\<bar> \<le> 1 / 1000000 then a
         else \<lparr> vx = vx a / d, vy = vy a / d, vz = vz a / d \<rparr>)"

definition atan2 :: "real \<Rightarrow> real \<Rightarrow> real" where
  "atan2 y x =
     (if 0 < x then arctan (y / x)
      else if x < 0 \<and> 0 \<le> y then arctan (y / x) + pi
      else if x < 0 \<and> y < 0 then arctan (y / x) - pi
      else if 0 < y then pi / 2
      else if y < 0 then - (pi / 2)
      else 0)"

definition Angle_Normalize :: "real \<Rightarrow> real" where
  "Angle_Normalize a = atan2 (sin a) (cos a)"

text \<open>A rotation is kept as the roll, pitch and yaw its constructor was given.\<close>

datatype Quaterniond = Quaterniond real real real

record Pose3d =
  pos :: Vector3d
  rot :: Quaterniond

record Box =
  boxMin :: Vector3d
  boxMax :: Vector3d

definition Contains :: "Box \<Rightarrow> Vector3d \<Rightarrow> bool" where
  "Contains b p =
     (vx (boxMin b) \<le> vx p \<and> vx p \<le> vx (boxMax b) \<and>
      vy (boxMin b) \<le> vy p \<and> vy p \<le> vy (boxMax b) \<and>
      vz (boxMin b) \<le> vz p \<and> vz p \<le> vz (boxMax b))"

text \<open>
  The world the plugin reads: the models it holds, and for every model pointer its
  name, pose and bounding box (a pointer the plugin keeps can always be read).
\<close>

type_synonym ModelPtr = nat

record World =
  models :: "ModelPtr list"
  GetName :: "ModelPtr \<Rightarrow> string"
  WorldPose :: "ModelPtr \<Rightarrow> Pose3d"
  BoundingBox :: "ModelPtr \<Rightarrow> Box"

definition ModelByName :: "World \<Rightarrow> string \<Rightarrow> ModelPtr option" where
  "ModelByName w n = find (\<lambda>m. GetName w m = n) (models w)"

text \<open>The actor the plugin moves: its name, its pose and its script time.\<close>

record Actor =
  actorName :: string
  actorPose :: Pose3d
  scriptTime :: real

record FollowActorPluginPrivate =
  actor :: Actor
  velocity :: real
  target :: "ModelPtr option"
  minDistance :: real
  maxDistance :: real
  pickUpRadius :: real
  obstacleMargin :: real
  animationFactor :: real
  lastUpdate :: Time
  ignoreModels :: "string list"

text \<open>
  \<^verbatim>\<open>FollowActorPlugin::Load\<close>, for the fields above: the defaults of the class, each
  replaced when the configuration has the element, and the actor's own name first in the
  list of ignored models.
\<close>

record FollowSdf =
  sdf_velocity :: "real option"
  sdf_min_distance :: "real option"
  sdf_max_distance :: "real option"
  sdf_pickup_radius :: "real option"
  sdf_obstacle_margin :: "real option"
  sdf_animation_factor :: "real option"
  sdf_ignore_obstacle :: "string list"

definition Load :: "Actor \<Rightarrow> FollowSdf \<Rightarrow> FollowActorPluginPrivate" where
  "Load a sdf =
     \<lparr> actor = a,
       velocity = (case sdf_velocity sdf of None \<Rightarrow> 8 / 10 | Some v \<Rightarrow> v),
       target = None,
       minDistance = (case sdf_min_distance sdf of None \<Rightarrow> 12 / 10 | Some v \<Rightarrow> v),
       maxDistance = (case sdf_max_distance sdf of None \<Rightarrow> 4 | Some v \<Rightarrow> v),
       pickUpRadius = (case sdf_pickup_radius sdf of None \<Rightarrow> 2 | Some v \<Rightarrow> v),
       obstacleMargin = (case sdf_obstacle_margin sdf of None \<Rightarrow> 5 / 10 | Some v \<Rightarrow> v),
       animationFactor = (case sdf_animation_factor sdf of None \<Rightarrow> 51 / 10 | Some v \<Rightarrow> v),
       lastUpdate = 0,
       ignoreModels = actorName a # sdf_ignore_obstacle sdf \<rparr>"

text \<open>\<^verbatim>\<open>FollowActorPlugin::Reset\<close>.\<close>

definition Reset :: "FollowActorPluginPrivate \<Rightarrow> FollowActorPluginPrivate" where
  "Reset d = d\<lparr>target := None, lastUpdate := 0\<rparr>"

text \<open>\<^verbatim>\<open>FollowActorPlugin::ObstacleOnTheWay\<close>: the loop over the world's models.\<close>

fun ObstacleOnTheWay_loop :: "World \<Rightarrow> FollowActorPluginPrivate \<Rightarrow> ModelPtr list \<Rightarrow> bool" where
  "ObstacleOnTheWay_loop w d [] = False"
| "ObstacleOnTheWay_loop w d (model # rest) =
     (if GetName w model \<in> set (ignoreModels d) then ObstacleOnTheWay_loop w d rest
      else
        let bb = BoundingBox w model;
            bb1 = \<lparr> boxMin = vsub (boxMin bb) (vscale Vector3d_One (obstacleMargin d)),
                    boxMax = vadd (boxMax bb) (vscale Vector3d_One (obstacleMargin d)) \<rparr>;
            bb2 = \<lparr> boxMin = (boxMin bb1)\<lparr>vz := vz (boxMin bb1) - 5\<rparr>,
                    boxMax = (boxMax bb1)\<lparr>vz := vz (boxMax bb1) + 5\<rparr> \<rparr>
        in if Contains bb2 (pos (actorPose (actor d))) then True
           else ObstacleOnTheWay_loop w d rest)"

definition ObstacleOnTheWay :: "World \<Rightarrow> FollowActorPluginPrivate \<Rightarrow> bool" where
  "ObstacleOnTheWay w d = ObstacleOnTheWay_loop w d (models w)"

text \<open>
  \<^verbatim>\<open>FollowActorPlugin::OnUpdate\<close>, named after its class here since the competition
  plugin has an \<^verbatim>\<open>OnUpdate\<close> too. \<open>simTime\<close> is \<^verbatim>\<open>_info.simTime\<close>.
\<close>

definition FollowActorPlugin_OnUpdate ::
  "Time \<Rightarrow> World \<Rightarrow> FollowActorPluginPrivate \<Rightarrow> FollowActorPluginPrivate" where
  "FollowActorPlugin_OnUpdate simTime w d =
     (let dt = simTime - lastUpdate d;
          d1 = d\<lparr>lastUpdate := simTime\<rparr>
      in case target d1 of
           None \<Rightarrow> d1
         | Some tgt \<Rightarrow>
             if ObstacleOnTheWay w d1 then d1
             else
               let pose0 = actorPose (actor d1);
                   zPos = vz (pos pose0);
                   targetPose = WorldPose w tgt;
                   dir = vsub (pos targetPose) (pos pose0)
               in if Length dir \<le> minDistance d1 then d1
                  else if Length dir > maxDistance d1 then d1\<lparr>target := None\<rparr>
                  else
                    let yaw = Angle_Normalize (atan2 (vy dir) (vx dir) + pi / 2);
                        dir1 = Normalize dir;
                        p1 = vadd (pos pose0) (vscale (vscale dir1 (velocity d1)) dt);
                        p2 = p1\<lparr>vz := zPos\<rparr>;
                        pose1 = \<lparr> pos = p2, rot = Quaterniond (pi / 2) 0 yaw \<rparr>;
                        distanceTraveled = Length (vsub (pos pose1) (pos (actorPose (actor d1))))
                    in d1\<lparr>actor := (actor d1)
                          \<lparr>actorPose := pose1,
                           scriptTime := scriptTime (actor d1) + distanceTraveled * animationFactor d1\<rparr>\<rparr>)"

text \<open>
  \<^verbatim>\<open>FollowActorPlugin::OnPickUpRosRequest\<close> and \<^verbatim>\<open>OnDropOffRosRequest\<close>: the value
  returned, the plugin afterwards, and \<^verbatim>\<open>_res.success\<close>.
\<close>

record PickUpGuest_Request =
  guest_name :: string
  robot_name :: string

definition OnPickUpRosRequest ::
  "World \<Rightarrow> FollowActorPluginPrivate \<Rightarrow> PickUpGuest_Request \<Rightarrow> bool \<times> FollowActorPluginPrivate \<times> bool" where
  "OnPickUpRosRequest w d req =
     (if guest_name req \<noteq> actorName (actor d) then (False, d, False)
      else case ModelByName w (robot_name req) of
             None \<Rightarrow> (False, d, False)
           | Some model \<Rightarrow>
               let actorPos = pos (actorPose (actor d));
                   targetPos = pos (WorldPose w model);
                   posDiff = (vsub actorPos targetPos)\<lparr>vz := 0\<rparr>
               in if Length posDiff > pickUpRadius d then (False, d, False)
                  else (True, d\<lparr>target := Some model\<rparr>, True))"

definition OnDropOffRosRequest ::
  "FollowActorPluginPrivate \<Rightarrow> string \<Rightarrow> bool \<times> FollowActorPluginPrivate \<times> bool" where
  "OnDropOffRosRequest d guest =
     (if guest \<noteq> actorName (actor d) then (False, d, False)
      else (True, d\<lparr>target := None\<rparr>, True))"

text \<open>
  A run of the plugin: ticks, pick-up and drop-off requests and resets, each with the
  world as it is then. Beside the plugin, the values the pick-up requests returned.
\<close>

datatype follow_event =
    FollowTick Time World
  | PickUp World PickUpGuest_Request
  | DropOff string
  | ResetEv

fun follow_step :: "follow_event \<Rightarrow> FollowActorPluginPrivate \<times> bool list \<Rightarrow> FollowActorPluginPrivate \<times> bool list" where
  "follow_step (FollowTick t w) (d, outs) = (FollowActorPlugin_OnUpdate t w d, outs)"
| "follow_step (PickUp w req) (d, outs) =
     (case OnPickUpRosRequest w d req of (r, d', res) \<Rightarrow> (d', outs @ [r]))"
| "follow_step (DropOff g) (d, outs) =
     (case OnDropOffRosRequest d g of (r, d', res) \<Rightarrow> (d', outs))"
| "follow_step ResetEv (d, outs) = (Reset d, outs)"

fun follow_run :: "follow_event list \<Rightarrow> FollowActorPluginPrivate \<times> bool list \<Rightarrow> FollowActorPluginPrivate \<times> bool list" where
  "follow_run [] s = s"
| "follow_run (e # es) s = follow_run es (follow_step e s)"

section \<open>Example configurations\<close>

text \<open>
  A guest standing at (0, 0, 1) with a plugin of default settings, a world holding one
  robot (a cube of side one half around its position), and a world in which a table
  stands where the guest is while the robot is 5 m away.
\<close>

definition guest :: Actor where
  "guest = \<lparr> actorName = ''guest'',
             actorPose = \<lparr> pos = \<lparr> vx = 0, vy = 0, vz = 1 \<rparr>, rot = Quaterniond 0 0 0 \<rparr>,
             scriptTime = 0 \<rparr>"

definition no_sdf :: FollowSdf where
  "no_sdf = \<lparr> sdf_velocity = None, sdf_min_distance = None, sdf_max_distance = None,
              sdf_pickup_radius = None, sdf_obstacle_margin = None,
              sdf_animation_factor = None, sdf_ignore_obstacle = [] \<rparr>"

definition box_around :: "Vector3d \<Rightarrow> Box" where
  "box_around p = \<lparr> boxMin = vsub p \<lparr> vx = 1 / 4, vy = 1 / 4, vz = 1 / 4 \<rparr>,
                    boxMax = vadd p \<lparr> vx = 1 / 4, vy = 1 / 4, vz = 1 / 4 \<rparr> \<rparr>"

definition robot_at :: "Vector3d \<Rightarrow> World" where
  "robot_at p =
     \<lparr> models = [0],
       GetName = (\<lambda>m. ''robot''),
       WorldPose = (\<lambda>m. \<lparr> pos = p, rot = Quaterniond 0 0 0 \<rparr>),
       BoundingBox = (\<lambda>m. box_around p) \<rparr>"

definition robot_and_table :: World where
  "robot_and_table =
     \<lparr> models = [0, 1],
       GetName = (\<lambda>m. if m = 0 then ''robot'' else ''table''),
       WorldPose = (\<lambda>m. if m = 0 then \<lparr> pos = \<lparr> vx = 5, vy = 0, vz = 1 \<rparr>, rot = Quaterniond 0 0 0 \<rparr>
                         else \<lparr> pos = \<lparr> vx = 0, vy = 0, vz = 1 \<rparr>, rot = Quaterniond 0 0 0 \<rparr>),
       BoundingBox = (\<lambda>m. if m = 0 then box_around \<lparr> vx = 5, vy = 0, vz = 1 \<rparr>
                           else box_around \<lparr> vx = 0, vy = 0, vz = 1 \<rparr>) \<rparr>"

definition pick_me_up :: PickUpGuest_Request where
  "pick_me_up = \<lparr> guest_name = ''guest'', robot_name = ''robot'' \<rparr>"

text \<open>A competition of two stages before any task, and the same once the first stage is done.\<close>

definition two_stage :: CompetitionPluginPrivate where
  "two_stage =
     \<lparr> pickUpLocation = ''lobby'',
       checkpoints = [ContainCheckpoint_new 2 (Some ''zoneA'') 1, ContainCheckpoint_new 1 (Some ''zoneB'') 2],
       current = 0, scoreFreq = 50, lastScorePubTime = None \<rparr>"

definition first_done :: CompetitionPluginPrivate where
  "first_done =
     \<lparr> pickUpLocation = ''lobby'',
       checkpoints = [OnContain True (Start 0 (ContainCheckpoint_new 2 (Some ''zoneA'') 1)),
                      ContainCheckpoint_new 1 (Some ''zoneB'') 2],
       current = 1, scoreFreq = 50, lastScorePubTime = None \<rparr>"


text \<open>The first stage running since time 0, the second one not started, a score published at 0.\<close>

definition second_pending :: CompetitionPluginPrivate where
  "second_pending =
     \<lparr> pickUpLocation = ''lobby'',
       checkpoints = [Start 0 (ContainCheckpoint_new 2 (Some ''zoneA'') 1),
                      ContainCheckpoint_new 1 (Some ''zoneB'') 2],
       current = 1, scoreFreq = 50, lastScorePubTime = Some 0 \<rparr>"

section \<open>Checkpoint properties\<close>

lemma Check_result:
  "Check cp = (r, acts, cp') \<Longrightarrow> r = containDone cp \<and> containDone cp' = containDone cp \<and> enabled cp' = enabled cp"
  by (auto simp add: Check_def Let_def split: if_splits)

lemma Check_fst: "fst (Check cp) = containDone cp"
  by (cases "Check cp") (auto dest: Check_result)

lemma Check_quiet:
  "containDone cp \<Longrightarrow> Check cp = (r, acts, cp') \<Longrightarrow> \<forall>a\<in>set acts. \<not> enabling a"
  by (auto simp add: Check_def Let_def split: if_splits)

lemma cp_run_done:
  "containDone cp \<Longrightarrow> ContainEv False \<notin> set es \<Longrightarrow> cp_run es cp = (outs, cp') \<Longrightarrow>
     containDone cp' \<and> (\<forall>(r, acts)\<in>set outs. r \<and> (\<forall>a\<in>set acts. \<not> enabling a))"
proof (induction es arbitrary: cp outs cp')
  case Nil
  then show ?case by simp
next
  case (Cons e es)
  obtain out cp1 where s: "cp_step e cp = (out, cp1)" by force
  obtain outs1 cp2 where r: "cp_run es cp1 = (outs1, cp2)" by force
  from Cons.prems s r have eq: "outs = out @ outs1" "cp' = cp2" by auto
  have d1: "containDone cp1 \<and> (\<forall>(r, acts)\<in>set out. r \<and> (\<forall>a\<in>set acts. \<not> enabling a))"
  proof (cases e)
    case CheckEv
    obtain r acts c where c: "Check cp = (r, acts, c)" by (cases "Check cp") auto
    with s CheckEv have "out = [(r, acts)]" "cp1 = c" by auto
    with c Cons.prems(1) Check_result[OF c] Check_quiet[OF Cons.prems(1) c] show ?thesis by simp
  next
    case (ContainEv b)
    with Cons.prems(2) have "b" by (cases b) auto
    with s ContainEv show ?thesis by (auto simp add: OnContain_def)
  next
    case (AckEv b)
    with s Cons.prems(1) show ?thesis by (auto simp add: EnableCallback_def)
  qed
  from Cons.prems(2) have "ContainEv False \<notin> set es" by simp
  from Cons.IH[OF conjunct1[OF d1] this r] d1 eq show ?case by auto
qed

lemma cp_step_containDone:
  "cp_step e cp = (out, cp') \<Longrightarrow> containDone cp' \<Longrightarrow> containDone cp \<or> e = ContainEv True"
  by (cases e) (auto simp add: OnContain_def EnableCallback_def split: prod.splits if_splits dest: Check_result)

lemma cp_run_containDone:
  "cp_run es cp = (outs, cp') \<Longrightarrow> containDone cp' \<Longrightarrow> containDone cp \<or> ContainEv True \<in> set es"
proof (induction es arbitrary: cp outs cp')
  case Nil
  then show ?case by simp
next
  case (Cons e es)
  obtain out cp1 where s: "cp_step e cp = (out, cp1)" by force
  obtain outs1 cp2 where r: "cp_run es cp1 = (outs1, cp2)" by force
  from Cons.prems s r have e2: "cp' = cp2" by auto
  from Cons.IH[OF r] Cons.prems(2) e2 have "containDone cp1 \<or> ContainEv True \<in> set es" by simp
  with cp_step_containDone[OF s] show ?case by auto
qed


lemma cp_step_endTime: "endTime (snd (cp_step e cp)) = endTime cp"
  by (cases e) (auto simp add: Check_def OnContain_def EnableCallback_def Let_def split: prod.splits)

lemma cp_run_endTime: "endTime (snd (cp_run es cp)) = endTime cp"
proof (induction es arbitrary: cp)
  case Nil
  show ?case by simp
next
  case (Cons e es)
  have "endTime (snd (cp_run (e # es) cp)) = endTime (snd (cp_run es (snd (cp_step e cp))))"
    by (simp split: prod.splits)
  also have "\<dots> = endTime cp" by (simp add: Cons.IH cp_step_endTime)
  finally show ?case .
qed

lemma Score_active: "endTime cp = 0 \<Longrightarrow> Score t cp = (t - startTime cp) * weight cp"
  by (simp add: Score_def)

lemma Score_ended: "endTime cp \<noteq> 0 \<Longrightarrow> Score t cp = (endTime cp - startTime cp) * weight cp"
  by (simp add: Score_def)

lemma Score_mono:
  "endTime cp = 0 \<Longrightarrow> 0 \<le> weight cp \<Longrightarrow> t \<le> t' \<Longrightarrow> Score t cp \<le> Score t' cp"
  by (simp add: Score_def mult_right_mono)

text \<open>
  C4, the code at the failing input. No call the checkpoint receives writes \<open>endTime\<close>,
  so it is still zero after any of them; the checkpoint of weight 2 started at 10, whose
  \<^verbatim>\<open>Check\<close> returns false and then, once the contain message has arrived, true, scores
  30 at time 25 and 60 at time 40: the score is not frozen by completion. In a competition
  of two stages whose first stage ran from 10 to 25, the message published at 40 reports
  60 for the first stage.
\<close>

theorem Score_after_completion:
  "endTime (snd (cp_run es (Start 10 (ContainCheckpoint_new 2 (Some ''zone'') 1)))) = 0 \<and>
   (case cp_run [CheckEv, AckEv True, ContainEv True, CheckEv]
           (Start 10 (ContainCheckpoint_new 2 (Some ''zone'') 1)) of
      (outs, cp') \<Rightarrow> map fst outs = [False, True] \<and> Score 25 cp' = 30 \<and> Score 40 cp' = 60) \<and>
   (\<exists>d0 d1 a1 m1 d2 a2.
      OnNewTaskRosService 10 two_stage [] = Inr (True, d0, ''lobby'') \<and>
      OnUpdate 25 (deliver (OnContain True) 0 d0) = Inr (d1, a1, m1) \<and> current d1 = 2 \<and>
      OnUpdate 40 d1 = Inr (d2, a2, Some \<lparr> msg_checkpoints = [60, 15], msg_score = 75 \<rparr>))"
proof (intro conjI)
  show "endTime (snd (cp_run es (Start 10 (ContainCheckpoint_new 2 (Some ''zone'') 1)))) = 0"
    by (simp add: cp_run_endTime Start_def ContainCheckpoint_new_def)
  show "case cp_run [CheckEv, AckEv True, ContainEv True, CheckEv]
           (Start 10 (ContainCheckpoint_new 2 (Some ''zone'') 1)) of
      (outs, cp') \<Rightarrow> map fst outs = [False, True] \<and> Score 25 cp' = 30 \<and> Score 40 cp' = 60"
    by (simp add: Check_def Start_def ContainCheckpoint_new_def Score_def EnableCallback_def
        OnContain_def)
  show "\<exists>d0 d1 a1 m1 d2 a2.
      OnNewTaskRosService 10 two_stage [] = Inr (True, d0, ''lobby'') \<and>
      OnUpdate 25 (deliver (OnContain True) 0 d0) = Inr (d1, a1, m1) \<and> current d1 = 2 \<and>
      OnUpdate 40 d1 = Inr (d2, a2, Some \<lparr> msg_checkpoints = [60, 15], msg_score = 75 \<rparr>)"
    by (simp add: two_stage_def OnNewTaskRosService_def OnUpdate_def at_index_def Check_def
        Start_def ContainCheckpoint_new_def OnContain_def publishScore_def Score_def Let_def)
qed

text \<open>
  C5, as amended. \<^verbatim>\<open>Check\<close> on a checkpoint built by the constructor returns true only
  when a contain message carrying true has been delivered before. Once \<^verbatim>\<open>Check\<close> has
  returned true, every later \<^verbatim>\<open>Check\<close> returns true again and makes neither a
  subscription nor an enable request, whatever replies to enable requests arrive in
  between, as long as no contain message carrying false is delivered: \<^verbatim>\<open>OnContain\<close>
  stores the latest message, so a later false message takes the completion back.
\<close>

theorem Check_completion:
  "(fst (Check (snd (cp_run es (ContainCheckpoint_new w nsopt n)))) \<longrightarrow> ContainEv True \<in> set es) \<and>
   (fst (Check cp) \<and> ContainEv False \<notin> set es' \<longrightarrow>
      (\<forall>(r, acts)\<in>set (fst (cp_run es' (snd (snd (Check cp))))). r \<and> (\<forall>a\<in>set acts. \<not> enabling a)))"
proof (intro conjI impI)
  assume a: "fst (Check (snd (cp_run es (ContainCheckpoint_new w nsopt n))))"
  obtain outs cp' where r: "cp_run es (ContainCheckpoint_new w nsopt n) = (outs, cp')" by force
  with a have "containDone cp'" by (simp add: Check_fst)
  from cp_run_containDone[OF r this] show "ContainEv True \<in> set es"
    by (simp add: ContainCheckpoint_new_def)
next
  assume a: "fst (Check cp) \<and> ContainEv False \<notin> set es'"
  obtain r acts c where c: "Check cp = (r, acts, c)" by (cases "Check cp") auto
  with a Check_result[OF c] have d: "containDone c" by simp
  obtain outs cp' where r: "cp_run es' c = (outs, cp')" by force
  from cp_run_done[OF d _ r] a c r
  show "\<forall>(r, acts)\<in>set (fst (cp_run es' (snd (snd (Check cp))))). r \<and> (\<forall>a\<in>set acts. \<not> enabling a)"
    by simp
qed

theorem Check_completion_witness:
  "fst (Check (snd (cp_run [CheckEv, AckEv True, ContainEv True] (ContainCheckpoint_new 2 (Some ''zone'') 1)))) \<and>
   ContainEv True \<in> set [CheckEv, AckEv True, ContainEv True] \<and>
   ContainEv False \<notin> set [CheckEv, AckEv True, CheckEv] \<and>
   fst (cp_run [CheckEv, AckEv True, CheckEv]
      (snd (snd (Check (snd (cp_run [CheckEv, AckEv True, ContainEv True] (ContainCheckpoint_new 2 (Some ''zone'') 1)))))))
    = [(True, [Request ''zone/enable'' False]), (True, [])]"
  using Check_completion[of "[CheckEv, AckEv True, ContainEv True]" 2 "Some ''zone''" 1
      "snd (cp_run [CheckEv, AckEv True, ContainEv True] (ContainCheckpoint_new 2 (Some ''zone'') 1))"
      "[CheckEv, AckEv True, CheckEv]"]
  by (simp add: Check_def ContainCheckpoint_new_def EnableCallback_def OnContain_def)


text \<open>
  Without that proviso the claim fails: while the enable request is unanswered the
  subscription stays open, and a checkpoint whose \<^verbatim>\<open>Check\<close> has returned true returns
  false after a contain message carrying false, subscribing and requesting enable again.
\<close>

theorem Check_completion_counterexample:
  "fst (cp_run [CheckEv, ContainEv True, CheckEv, ContainEv False, CheckEv]
          (ContainCheckpoint_new 2 (Some ''zone'') 1)) =
     [(False, [Subscribe ''zone/contain'', Request ''zone/enable'' True]),
      (True, []),
      (False, [Subscribe ''zone/contain'', Request ''zone/enable'' True])]"
  by (simp add: Check_def ContainCheckpoint_new_def OnContain_def)

section \<open>Competition properties\<close>

lemma publishScore_keeps:
  "publishScore t d = (d', m) \<Longrightarrow>
     checkpoints d' = checkpoints d \<and> current d' = current d \<and> pickUpLocation d' = pickUpLocation d"
  by (auto simp add: publishScore_def Let_def split: if_splits option.splits)


lemma publishScore_msg:
  "publishScore t d = (d', Some m) \<Longrightarrow> msg_checkpoints m = map (Score t) (checkpoints d')"
  by (auto simp add: publishScore_def Let_def split: if_splits option.splits)

lemma OnUpdate_msg:
  "OnUpdate t d = Inr (d', acts, Some m) \<Longrightarrow> msg_checkpoints m = map (Score t) (checkpoints d')"
  by (auto simp add: OnUpdate_def Let_def split: if_splits sum.splits prod.splits
      dest: publishScore_msg)

lemma OnUpdate_not_started: "current d = 0 \<Longrightarrow> OnUpdate t d = Inr (d, [], None)"
  by (simp add: OnUpdate_def)

lemma current_succ:
  fixes c :: "8 word"
  assumes "unat c \<le> 254"
  shows "unat (c + 1) = Suc (unat c)"
proof -
  have "unat (c + 1) = (unat c + 1) mod 256" by (simp add: unat_word_ariths)
  with assms show ?thesis by simp
qed

lemma current_index:
  fixes c :: "8 word"
  assumes "c \<noteq> 0" and "unat c \<le> n"
  shows "0 \<le> uint c - 1 \<and> uint c - 1 < int n \<and> nat (uint c - 1) = unat c - 1"
proof -
  from assms(1) have k: "unat c \<noteq> 0" by (simp add: unat_eq_0)
  have u: "uint c = int (unat c)" by simp
  show ?thesis unfolding u using k assms(2) by arith
qed

lemma OnUpdate_current:
  assumes nz: "current d \<noteq> 0"
    and le: "unat (current d) \<le> length (checkpoints d)"
    and n: "unat (current d) \<le> 254"
  shows "\<exists>d' acts m. OnUpdate t d = Inr (d', acts, m) \<and>
           length (checkpoints d') = length (checkpoints d) \<and>
           pickUpLocation d' = pickUpLocation d \<and>
           current d' =
             (if checkPasses d
              then (if unat (current d) = length (checkpoints d) then 0 else current d + 1)
              else current d) \<and>
           (checkPasses d \<and> unat (current d) < length (checkpoints d) \<longrightarrow>
              startTime (checkpoints d' ! unat (current d)) = t) \<and>
           map containDone (checkpoints d') = map containDone (checkpoints d)"
proof -
  let ?i = "uint (current d) - 1"
  from current_index[OF nz le] have i: "0 \<le> ?i" "?i < int (length (checkpoints d))" "nat ?i = unat (current d) - 1"
    by auto
  let ?cp = "checkpoints d ! nat ?i"
  have at: "at_index (checkpoints d) ?i = Inr ?cp" using i by (simp add: at_index_def)
  obtain r acts cp' where c: "Check ?cp = (r, acts, cp')" by (cases "Check ?cp") auto
  have cp: "checkPasses d = r" using nz at c by (simp add: checkPasses_def)
  from Check_result[OF c] have "containDone cp' = containDone ?cp" by simp
  with i have m1: "map containDone ((checkpoints d)[nat ?i := cp']) = map containDone (checkpoints d)"
    by (simp add: map_update list_update_same_conv)
  let ?d1 = "d\<lparr>checkpoints := (checkpoints d)[nat ?i := cp']\<rparr>"
  show ?thesis
  proof (cases r)
    case False
    obtain d3 m where p: "publishScore t ?d1 = (d3, m)" by force
    from False at c p nz have "OnUpdate t d = Inr (d3, acts, m)"
      by (simp add: OnUpdate_def Let_def)
    with publishScore_keeps[OF p] cp False m1 show ?thesis by simp
  next
    case True
    from le n have u: "unat (current d + 1) = Suc (unat (current d))" by (intro current_succ) simp
    show ?thesis
    proof (cases "unat (current d) = length (checkpoints d)")
      case eq: True
      obtain d3 m where p: "publishScore t (?d1\<lparr>current := current d + 1, current := 0\<rparr>) = (d3, m)" by force
      from True at c p nz u eq have "OnUpdate t d = Inr (d3, acts, m)"
        by (simp add: OnUpdate_def Let_def)
      with publishScore_keeps[OF p] cp True eq m1 show ?thesis by simp
    next
      case ne: False
      with le have lt: "unat (current d) < length (checkpoints d)" by simp
      let ?d2 = "?d1\<lparr>current := current d + 1\<rparr>"
      let ?j = "uint (current d + 1) - 1"
      have "uint (current d + 1) = int (unat (current d + 1))" by simp
      with u have j: "?j = int (unat (current d))" by linarith
      have nj: "nat ?j = unat (current d)" unfolding j by simp
      from lt have at2: "at_index (checkpoints ?d2) ?j = Inr (checkpoints ?d2 ! unat (current d))"
        unfolding j by (simp add: at_index_def del: of_nat_unat)
      let ?c = "checkpoints ?d2 ! unat (current d)"
      obtain d3 m where p: "publishScore t (?d2\<lparr>checkpoints := (checkpoints ?d2)[nat ?j := Start t ?c]\<rparr>) = (d3, m)" by force
      from True at c nz u lt at2 p nj have "OnUpdate t d = Inr (d3, acts, m)"
        by (simp add: OnUpdate_def Let_def)
      moreover have "map containDone ((checkpoints ?d2)[nat ?j := Start t ?c]) = map containDone (checkpoints d)"
      proof -
        from nz have "unat (current d) \<noteq> 0" by (simp add: unat_eq_0)
        with i(3) have "nat ?i \<noteq> unat (current d)" by arith
        then have ceq: "?c = checkpoints d ! unat (current d)" by simp
        have "map containDone ((checkpoints ?d2)[nat ?j := Start t ?c]) =
                (map containDone (checkpoints d))[unat (current d) := containDone (checkpoints d ! unat (current d))]"
          unfolding nj ceq using m1 by (simp add: map_update Start_def)
        also have "\<dots> = map containDone (checkpoints d)"
          using lt by (simp add: list_update_same_conv)
        finally show ?thesis .
      qed
      ultimately show ?thesis using publishScore_keeps[OF p] cp True ne lt nj by (simp add: Start_def)
    qed
  qed
qed

lemma step_index:
  assumes len: "length (checkpoints d) = N" and N: "N \<le> 254"
    and inv: "(n < N \<and> unat (current d) = Suc n) \<or> (n = N \<and> current d = 0)"
  shows "\<exists>d' n'. step e (d, n) = Inr (d', n') \<and> length (checkpoints d') = N \<and>
           pickUpLocation d' = pickUpLocation d \<and>
           ((n' < N \<and> unat (current d') = Suc n') \<or> (n' = N \<and> current d' = 0))"
proof (cases e)
  case (Tick t)
  show ?thesis
  proof (cases "current d = 0")
    case True
    then have "OnUpdate t d = Inr (d, [], None)" "\<not> checkPasses d"
      by (simp_all add: OnUpdate_def checkPasses_def)
    with Tick True inv len show ?thesis by auto
  next
    case False
    with inv have c: "n < N" "unat (current d) = Suc n" by auto
    with len N have "unat (current d) \<le> length (checkpoints d)" "unat (current d) \<le> 254" by auto
    from OnUpdate_current[OF False this, of t] obtain d' acts m where
      u: "OnUpdate t d = Inr (d', acts, m)" "length (checkpoints d') = length (checkpoints d)"
         "pickUpLocation d' = pickUpLocation d"
         "current d' = (if checkPasses d
              then (if unat (current d) = length (checkpoints d) then 0 else current d + 1)
              else current d)" by blast
    have s: "step e (d, n) = Inr (d', if checkPasses d then Suc n else n)"
      using Tick u(1) by simp
    show ?thesis
    proof (cases "checkPasses d")
      case cf: False
      with s u c len show ?thesis by auto
    next
      case ct: True
      show ?thesis
      proof (cases "unat (current d) = N")
        case True
        with s u c len ct show ?thesis by auto
      next
        case ne: False
        from c N have "unat (current d + 1) = Suc (unat (current d))" by (intro current_succ) simp
        with s u c len ct ne show ?thesis by auto
      qed
    qed
  qed
next
  case (Contain i b)
  with inv len show ?thesis by auto
next
  case (Ack i b)
  with inv len show ?thesis by auto
qed

lemma run_index:
  assumes "length (checkpoints d) = N" and "N \<le> 254"
    and "(n < N \<and> unat (current d) = Suc n) \<or> (n = N \<and> current d = 0)"
  shows "\<exists>d' n'. run es (d, n) = Inr (d', n') \<and> length (checkpoints d') = N \<and>
           pickUpLocation d' = pickUpLocation d \<and>
           ((n' < N \<and> unat (current d') = Suc n') \<or> (n' = N \<and> current d' = 0))"
  using assms
proof (induction es arbitrary: d n)
  case Nil
  then show ?case by simp
next
  case (Cons e es)
  from step_index[OF Cons.prems, of e] obtain d1 n1 where
    s: "step e (d, n) = Inr (d1, n1)" "length (checkpoints d1) = N"
       "pickUpLocation d1 = pickUpLocation d"
       "(n1 < N \<and> unat (current d1) = Suc n1) \<or> (n1 = N \<and> current d1 = 0)" by blast
  from Cons.IH[OF s(2) Cons.prems(2) s(4)] s(1,3) show ?case by auto
qed

lemma OnNewTaskRosService_ok:
  assumes "current d = 0" and "checkpoints d \<noteq> []"
  shows "OnNewTaskRosService t d res =
           Inr (True, d\<lparr>current := 1, checkpoints := (checkpoints d)[0 := Start t (checkpoints d ! 0)]\<rparr>,
                pickUpLocation d)"
  using assms by (simp add: OnNewTaskRosService_def at_index_def Let_def)


text \<open>
  C1, as amended. The tick handler leaves the plugin as it is when \<open>current\<close> is 0;
  otherwise, with at most 254 checkpoints, it checks the checkpoint at position
  \<open>current - 1\<close>, and when that check passes it resets \<open>current\<close> to 0 after the last
  checkpoint and else moves to the next checkpoint and starts it. So for a sequence of
  N stages, 1 to 254, a task can be started, every run of ticks and deliveries then
  runs without a fault, at most N checks pass, and once N have passed \<open>current\<close> is 0
  and a new task can be started.
\<close>

theorem OnUpdate_progression:
  "(current s = 0 \<longrightarrow> OnUpdate t s = Inr (s, [], None)) \<and>
   (current s \<noteq> 0 \<and> unat (current s) \<le> length (checkpoints s) \<and> length (checkpoints s) \<le> 254 \<longrightarrow>
      (\<exists>s' acts m. OnUpdate t s = Inr (s', acts, m) \<and>
         current s' =
           (if checkPasses s
            then (if unat (current s) = length (checkpoints s) then 0 else current s + 1)
            else current s) \<and>
         (checkPasses s \<and> unat (current s) < length (checkpoints s) \<longrightarrow>
            startTime (checkpoints s' ! unat (current s)) = t))) \<and>
   (current d = 0 \<and> checkpoints d \<noteq> [] \<and> length (checkpoints d) \<le> 254 \<longrightarrow>
      (\<exists>d0. OnNewTaskRosService t0 d res = Inr (True, d0, pickUpLocation d) \<and>
         (\<exists>d' n. run es (d0, 0) = Inr (d', n) \<and> n \<le> length (checkpoints d) \<and>
            (n = length (checkpoints d) \<longrightarrow>
               current d' = 0 \<and>
               (\<exists>d''. OnNewTaskRosService t1 d' res' = Inr (True, d'', pickUpLocation d))))))"
proof (intro conjI impI)
  assume "current s = 0"
  then show "OnUpdate t s = Inr (s, [], None)" by (rule OnUpdate_not_started)
next
  assume a: "current s \<noteq> 0 \<and> unat (current s) \<le> length (checkpoints s) \<and> length (checkpoints s) \<le> 254"
  then have "current s \<noteq> 0" "unat (current s) \<le> length (checkpoints s)" "unat (current s) \<le> 254"
    by auto
  from OnUpdate_current[OF this, of t]
  show "\<exists>s' acts m. OnUpdate t s = Inr (s', acts, m) \<and>
         current s' =
           (if checkPasses s
            then (if unat (current s) = length (checkpoints s) then 0 else current s + 1)
            else current s) \<and>
         (checkPasses s \<and> unat (current s) < length (checkpoints s) \<longrightarrow>
            startTime (checkpoints s' ! unat (current s)) = t)"
    by blast
next
  assume a: "current d = 0 \<and> checkpoints d \<noteq> [] \<and> length (checkpoints d) \<le> 254"
  let ?N = "length (checkpoints d)"
  let ?d0 = "d\<lparr>current := 1, checkpoints := (checkpoints d)[0 := Start t0 (checkpoints d ! 0)]\<rparr>"
  from a have st: "OnNewTaskRosService t0 d res = Inr (True, ?d0, pickUpLocation d)"
    by (simp add: OnNewTaskRosService_ok)
  from a have "(0 < ?N \<and> unat (current ?d0) = Suc 0) \<or> (0 = ?N \<and> current ?d0 = 0)" by simp
  moreover have "length (checkpoints ?d0) = ?N" by simp
  ultimately obtain d' n where
    r: "run es (?d0, 0) = Inr (d', n)" "length (checkpoints d') = ?N"
       "pickUpLocation d' = pickUpLocation ?d0"
       "(n < ?N \<and> unat (current d') = Suc n) \<or> (n = ?N \<and> current d' = 0)"
    using run_index[of ?d0 ?N 0 es] a by blast
  have "n = ?N \<longrightarrow> current d' = 0 \<and>
          (\<exists>d''. OnNewTaskRosService t1 d' res' = Inr (True, d'', pickUpLocation d))"
  proof
    assume "n = ?N"
    with r(4) have c: "current d' = 0" by auto
    from r(2) a have "checkpoints d' \<noteq> []" by auto
    from OnNewTaskRosService_ok[OF c this, of t1 res'] r(3) c
    show "current d' = 0 \<and> (\<exists>d''. OnNewTaskRosService t1 d' res' = Inr (True, d'', pickUpLocation d))"
      by simp
  qed
  moreover from r(4) have "n \<le> ?N" by auto
  ultimately show "\<exists>d0. OnNewTaskRosService t0 d res = Inr (True, d0, pickUpLocation d) \<and>
         (\<exists>d' n. run es (d0, 0) = Inr (d', n) \<and> n \<le> length (checkpoints d) \<and>
            (n = length (checkpoints d) \<longrightarrow>
               current d' = 0 \<and>
               (\<exists>d''. OnNewTaskRosService t1 d' res' = Inr (True, d'', pickUpLocation d))))"
    using st r(1) by blast
qed


theorem OnUpdate_progression_witness:
  "current two_stage = 0 \<and> checkpoints two_stage \<noteq> [] \<and> length (checkpoints two_stage) \<le> 254 \<and>
   OnUpdate 1 two_stage = Inr (two_stage, [], None) \<and>
   (\<exists>d0. OnNewTaskRosService 0 two_stage [] = Inr (True, d0, ''lobby'') \<and>
      (\<exists>d'. run [Tick 1, Ack 0 True, Contain 0 True, Tick 2, Tick 3, Contain 1 True, Tick 4] (d0, 0) = Inr (d', 2) \<and>
         current d' = 0 \<and>
         (\<exists>d''. OnNewTaskRosService 5 d' [] = Inr (True, d'', ''lobby'')))) \<and>
   current first_done \<noteq> 0 \<and> unat (current first_done) \<le> length (checkpoints first_done) \<and>
   checkPasses first_done \<and> unat (current first_done) < length (checkpoints first_done) \<and>
   (\<exists>s' acts m. OnUpdate 2 first_done = Inr (s', acts, m) \<and> current s' = 2 \<and>
      startTime (checkpoints s' ! 1) = 2)"
  using OnUpdate_progression[of two_stage 1 two_stage 0 "[]" "[Tick 1, Ack 0 True, Contain 0 True, Tick 2, Tick 3, Contain 1 True, Tick 4]" 5 "[]"]
    OnUpdate_progression[of first_done 2 two_stage 0 "[]" "[]" 5 "[]"]
  by (simp add: two_stage_def first_done_def OnUpdate_def OnNewTaskRosService_def at_index_def Check_def Start_def
      ContainCheckpoint_new_def OnContain_def EnableCallback_def publishScore_def checkPasses_def
      Score_def Let_def)

lemma checkPasses_nth:
  assumes "unat (current d) = Suc n" and "n < length (checkpoints d)"
  shows "checkPasses d = containDone (checkpoints d ! n)"
proof -
  from assms(1) have nz: "current d \<noteq> 0" by (auto simp add: unat_eq_0)
  from assms have le: "unat (current d) \<le> length (checkpoints d)" by simp
  from current_index[OF nz le] assms(1)
  have "at_index (checkpoints d) (uint (current d) - 1) = Inr (checkpoints d ! n)"
    by (simp add: at_index_def)
  with nz show ?thesis by (simp add: checkPasses_def Check_fst)
qed

lemma run_ticks_done:
  assumes "map containDone (checkpoints d) = replicate N True"
    and "unat (current d) = Suc n" and "n + k < N" and "n + k \<le> 254"
  shows "\<exists>d'. run (replicate k (Tick t)) (d, n) = Inr (d', n + k) \<and>
           map containDone (checkpoints d') = replicate N True \<and>
           unat (current d') = Suc (n + k)"
  using assms
proof (induction k arbitrary: d n)
  case 0
  then show ?case by simp
next
  case (Suc k)
  from Suc.prems(1) have len: "length (checkpoints d) = N"
    by (metis length_map length_replicate)
  from Suc.prems(2) have nz: "current d \<noteq> 0" by (auto simp add: unat_eq_0)
  from Suc.prems len have b: "unat (current d) \<le> length (checkpoints d)" "unat (current d) \<le> 254"
    by auto
  from Suc.prems(3) len have nlt: "n < length (checkpoints d)" by simp
  have "containDone (checkpoints d ! n) = (map containDone (checkpoints d)) ! n"
    using nlt by simp
  with Suc.prems(1,3) have "containDone (checkpoints d ! n)" by simp
  with checkPasses_nth[OF Suc.prems(2) nlt] have cp: "checkPasses d" by simp
  from OnUpdate_current[OF nz b, of t] cp Suc.prems(2,3) len obtain d1 acts m where
    u: "OnUpdate t d = Inr (d1, acts, m)" "current d1 = current d + 1"
       "map containDone (checkpoints d1) = map containDone (checkpoints d)"
    by auto
  from b(2) have "unat (current d + 1) = Suc (unat (current d))" by (rule current_succ)
  with u(2) Suc.prems(2) have c1: "unat (current d1) = Suc (Suc n)" by simp
  from u(3) Suc.prems(1) have m1: "map containDone (checkpoints d1) = replicate N True" by simp
  from Suc.prems(3,4) have "Suc n + k < N" "Suc n + k \<le> 254" by auto
  from Suc.IH[OF m1 c1 this] obtain d' where
    r: "run (replicate k (Tick t)) (d1, Suc n) = Inr (d', Suc n + k)"
       "map containDone (checkpoints d') = replicate N True"
       "unat (current d') = Suc (Suc n + k)" by blast
  from u(1) cp have "step (Tick t) (d, n) = Inr (d1, Suc n)" by simp
  with r show ?case by simp
qed

lemma OnUpdate_wraps:
  assumes c: "current d = 255" and len: "length (checkpoints d) = 255"
    and dn: "containDone (checkpoints d ! 254)"
  shows "OnUpdate t d = Inl OutOfRange"
proof -
  have i: "uint (current d) - 1 = 254" using c by simp
  have at: "at_index (checkpoints d) 254 = Inr (checkpoints d ! 254)"
    using len by (simp add: at_index_def)
  obtain r acts cp' where ch: "Check (checkpoints d ! 254) = (r, acts, cp')"
    by (cases "Check (checkpoints d ! 254)") auto
  from Check_result[OF ch] dn have r: "r" by simp
  have w: "(255::8 word) + 1 = 0" by simp
  show ?thesis
    using c i at ch r len by (simp add: OnUpdate_def Let_def at_index_def)
qed

theorem OnUpdate_progression_counterexample:
  "\<exists>d0 d1. OnNewTaskRosService 0
       \<lparr> pickUpLocation = ''lobby'',
         checkpoints = replicate 255 (OnContain True (ContainCheckpoint_new 1 None 1)),
         current = 0, scoreFreq = 50, lastScorePubTime = None \<rparr> [] = Inr (True, d0, ''lobby'') \<and>
     run (replicate 254 (Tick 1)) (d0, 0) = Inr (d1, 254) \<and>
     checkPasses d1 \<and>
     run [Tick 1] (d1, 254) = Inl OutOfRange"
proof -
  let ?cp = "OnContain True (ContainCheckpoint_new 1 None 1)"
  let ?D = "\<lparr> pickUpLocation = ''lobby'', checkpoints = replicate 255 ?cp,
         current = 0, scoreFreq = 50, lastScorePubTime = None \<rparr>"
  let ?d0 = "?D\<lparr>current := 1, checkpoints := (checkpoints ?D)[0 := Start 0 (checkpoints ?D ! 0)]\<rparr>"
  have st: "OnNewTaskRosService 0 ?D [] = Inr (True, ?d0, ''lobby'')"
    using OnNewTaskRosService_ok[of ?D 0 "[]"] by simp
  have cd: "containDone ?cp" by (simp add: OnContain_def)
  have "map containDone (checkpoints ?d0) = (replicate 255 True)[0 := True]"
    using cd by (simp add: map_update Start_def)
  also have "\<dots> = replicate 255 True"
    by (simp add: list_update_same_conv)
  finally have m: "map containDone (checkpoints ?d0) = replicate 255 True" .
  have "unat (current ?d0) = Suc 0" by simp
  from run_ticks_done[OF m this, of 254 1] obtain d1 where
    r: "run (replicate 254 (Tick 1)) (?d0, 0) = Inr (d1, 254)"
       "map containDone (checkpoints d1) = replicate 255 True"
       "unat (current d1) = 255" by auto
  from r(2) have len: "length (checkpoints d1) = 255" by (metis length_map length_replicate)
  from r(3) have c: "current d1 = 255" by (simp add: word_unat_eq_iff)
  have "containDone (checkpoints d1 ! 254) = (map containDone (checkpoints d1)) ! 254"
    using len by simp
  with r(2) have dn: "containDone (checkpoints d1 ! 254)" by simp
  from checkPasses_nth[of d1 254] r(3) len dn have cp: "checkPasses d1" by simp
  from OnUpdate_wraps[OF c len dn, of 1] have "run [Tick 1] (d1, 254) = Inl OutOfRange" by simp
  with st r(1) cp show ?thesis by blast
qed



text \<open>
  C2, as amended. \<^verbatim>\<open>OnNewTaskRosService\<close> returns false and changes nothing whenever
  \<open>current\<close> is not 0; with \<open>current\<close> 0 and a checkpoint in the list it sets
  \<open>current\<close> to 1, starts the first checkpoint, puts the pick-up location in the
  response and returns true.
\<close>

theorem OnNewTaskRosService_result:
  "(current d \<noteq> 0 \<longrightarrow> OnNewTaskRosService t d res = Inr (False, d, res)) \<and>
   (current d = 0 \<and> checkpoints d \<noteq> [] \<longrightarrow>
      OnNewTaskRosService t d res =
        Inr (True,
             d\<lparr>current := 1, checkpoints := (checkpoints d)[0 := Start t (checkpoints d ! 0)]\<rparr>,
             pickUpLocation d))"
  by (auto simp add: OnNewTaskRosService_def at_index_def Let_def)

theorem OnNewTaskRosService_result_witness:
  "current first_done \<noteq> 0 \<and>
   OnNewTaskRosService 3 first_done [] = Inr (False, first_done, []) \<and>
   current two_stage = 0 \<and> checkpoints two_stage \<noteq> [] \<and>
   OnNewTaskRosService 3 two_stage [] =
     Inr (True,
          two_stage\<lparr>current := 1,
            checkpoints := [Start 3 (ContainCheckpoint_new 2 (Some ''zoneA'') 1),
                            ContainCheckpoint_new 1 (Some ''zoneB'') 2]\<rparr>,
          ''lobby'')"
  using OnNewTaskRosService_result[of first_done 3 "[]"]
    OnNewTaskRosService_result[of two_stage 3 "[]"]
  by (simp add: two_stage_def first_done_def)

theorem OnNewTaskRosService_empty_counterexample:
  "OnNewTaskRosService 0
     \<lparr> pickUpLocation = ''lobby'', checkpoints = [], current = 0, scoreFreq = 50,
       lastScorePubTime = None \<rparr> [] = Inl OutOfRange"
  by (simp add: OnNewTaskRosService_def at_index_def)

text \<open>
  C3, as amended. A checkpoint that was never started and has not ended scores the
  simulation time multiplied by its weight (its start time is the zero time), and every
  published score message carries that value at the checkpoint's position.
\<close>

theorem Score_not_started:
  "(startTime cp = 0 \<and> endTime cp = 0 \<longrightarrow> Score t cp = t * weight cp) \<and>
   (OnUpdate t d = Inr (d', acts, Some m) \<longrightarrow>
      length (msg_checkpoints m) = length (checkpoints d') \<and>
      (\<forall>i < length (checkpoints d').
         startTime (checkpoints d' ! i) = 0 \<and> endTime (checkpoints d' ! i) = 0 \<longrightarrow>
           msg_checkpoints m ! i = t * weight (checkpoints d' ! i)))"
proof (intro conjI impI)
  assume "startTime cp = 0 \<and> endTime cp = 0"
  then show "Score t cp = t * weight cp" by (simp add: Score_def)
next
  assume u: "OnUpdate t d = Inr (d', acts, Some m)"
  then have m: "msg_checkpoints m = map (Score t) (checkpoints d')" by (rule OnUpdate_msg)
  then show "length (msg_checkpoints m) = length (checkpoints d')" by simp
  show "\<forall>i < length (checkpoints d').
         startTime (checkpoints d' ! i) = 0 \<and> endTime (checkpoints d' ! i) = 0 \<longrightarrow>
           msg_checkpoints m ! i = t * weight (checkpoints d' ! i)"
    using m by (simp add: Score_def)
qed

theorem Score_not_started_witness:
  "startTime (ContainCheckpoint_new 1 (Some ''zoneB'') 2) = 0 \<and>
   endTime (ContainCheckpoint_new 1 (Some ''zoneB'') 2) = 0 \<and>
   Score 5 (ContainCheckpoint_new 1 (Some ''zoneB'') 2) = 5 * weight (ContainCheckpoint_new 1 (Some ''zoneB'') 2) \<and>
   (\<exists>d' acts m. OnUpdate 5 second_pending = Inr (d', acts, Some m) \<and>
      startTime (checkpoints d' ! 1) = 0 \<and> endTime (checkpoints d' ! 1) = 0 \<and>
      msg_checkpoints m ! 1 = 5 * weight (checkpoints d' ! 1))"
proof -
  let ?d = "second_pending\<lparr>checkpoints :=
              [(Start 0 (ContainCheckpoint_new 2 (Some ''zoneA'') 1))\<lparr>subscribedTopics := [''zoneA/contain'']\<rparr>,
               ContainCheckpoint_new 1 (Some ''zoneB'') 2],
            lastScorePubTime := Some 5\<rparr>"
  let ?acts = "[Subscribe ''zoneA/contain'', Request ''zoneA/enable'' True]"
  let ?m = "\<lparr> msg_checkpoints = [10, 5], msg_score = 15 \<rparr>"
  have u: "OnUpdate 5 second_pending = Inr (?d, ?acts, Some ?m)"
    by (simp add: second_pending_def OnUpdate_def at_index_def Check_def Start_def
        ContainCheckpoint_new_def publishScore_def Score_def Let_def)
  from Score_not_started[of "ContainCheckpoint_new 1 (Some ''zoneB'') 2" 5 second_pending ?d ?acts ?m] u
  show ?thesis
    by (simp add: second_pending_def ContainCheckpoint_new_def Start_def)
qed

theorem Score_not_started_counterexample:
  "Score 5 (ContainCheckpoint_new 1 (Some ''zoneB'') 2) = 5 \<and>
   (\<exists>d' acts. OnUpdate 5 second_pending =
      Inr (d', acts, Some \<lparr> msg_checkpoints = [10, 5], msg_score = 15 \<rparr>))"
  by (simp add: second_pending_def OnUpdate_def at_index_def Check_def Start_def
      ContainCheckpoint_new_def publishScore_def Score_def Let_def)

text \<open>
  C10. Whenever \<open>current\<close> is 0 the tick handler returns at once: no score message is
  published, whatever the time and the publication frequency, and the plugin is unchanged.
\<close>

theorem OnUpdate_idle:
  "current d = 0 \<Longrightarrow> OnUpdate t d = Inr (d, [], None)"
  by (simp add: OnUpdate_def)

theorem OnUpdate_idle_witness:
  "current (two_stage\<lparr>lastScorePubTime := Some 0\<rparr>) = 0 \<and>
   OnUpdate 100 (two_stage\<lparr>lastScorePubTime := Some 0\<rparr>) =
     Inr (two_stage\<lparr>lastScorePubTime := Some 0\<rparr>, [], None)"
  using OnUpdate_idle[of "two_stage\<lparr>lastScorePubTime := Some 0\<rparr>" 100]
  by (simp add: two_stage_def)

section \<open>Follow properties\<close>

lemmas follow_examples = guest_def no_sdf_def box_around_def robot_at_def robot_and_table_def Load_def
  FollowActorPlugin_OnUpdate_def ObstacleOnTheWay_def Contains_def vsub_def vadd_def vscale_def
  Vector3d_One_def Normalize_def OnPickUpRosRequest_def ModelByName_def Let_def pick_me_up_def

lemma sqrt25: "sqrt 25 = 5"
  by (rule real_sqrt_unique) simp_all

lemma ObstacleOnTheWay_loop_lastUpdate:
  "ObstacleOnTheWay_loop w (d\<lparr>lastUpdate := t\<rparr>) ms = ObstacleOnTheWay_loop w d ms"
  by (induction ms) (simp_all add: Let_def)

lemma ObstacleOnTheWay_lastUpdate:
  "ObstacleOnTheWay w (d\<lparr>lastUpdate := t\<rparr>) = ObstacleOnTheWay w d"
  by (simp add: ObstacleOnTheWay_def ObstacleOnTheWay_loop_lastUpdate)

lemma atan2_0_2: "atan2 0 2 = 0" by (simp add: atan2_def)
lemma Angle_Normalize_half_pi: "Angle_Normalize (pi / 2) = pi / 2" by (simp add: Angle_Normalize_def atan2_def)

lemma Length_planar:
  "Length ((vsub a b)\<lparr>vz := 0\<rparr>) = sqrt ((vx a - vx b)\<^sup>2 + (vy a - vy b)\<^sup>2)"
  by (simp add: Length_def vsub_def power2_eq_square)

lemma ModelByName_Some:
  "ModelByName w n = Some m \<Longrightarrow> m \<in> set (models w) \<and> GetName w m = n"
  by (auto simp add: ModelByName_def find_Some_iff)

lemma Length_axis: "Length \<lparr> vx = a, vy = 0, vz = 0 \<rparr> = \<bar>a\<bar>"
  by (simp add: Length_def)

lemma Length_5_12_13: "Length \<lparr> vx = 7 / 4, vy = 0, vz = 21 / 5 \<rparr> = 91 / 20"
  unfolding Length_def by (rule real_sqrt_unique) (simp_all add: power2_eq_square)

lemma Length_3d:
  "Length (vsub a b) = sqrt ((vx a - vx b)\<^sup>2 + (vy a - vy b)\<^sup>2 + (vz a - vz b)\<^sup>2)"
  by (simp add: Length_def vsub_def power2_eq_square)

lemma OnPickUpRosRequest_fst:
  "ModelByName w (robot_name req) = Some m \<Longrightarrow>
   fst (OnPickUpRosRequest w d req) \<longleftrightarrow>
     guest_name req = actorName (actor d) \<and>
     sqrt ((vx (pos (actorPose (actor d))) - vx (pos (WorldPose w m)))\<^sup>2 +
           (vy (pos (actorPose (actor d))) - vy (pos (WorldPose w m)))\<^sup>2) \<le> pickUpRadius d"
  using Length_planar[of "pos (actorPose (actor d))" "pos (WorldPose w m)"]
  by (simp add: OnPickUpRosRequest_def Let_def not_less)

lemma follow_run_outs: "set outs \<subseteq> set (snd (follow_run es (d, outs)))"
proof (induction es arbitrary: d outs)
  case Nil
  show ?case by simp
next
  case (Cons e es)
  obtain d1 outs1 where s: "follow_step e (d, outs) = (d1, outs1)" by force
  then have "set outs \<subseteq> set outs1" by (cases e) (auto split: prod.splits)
  with Cons.IH[of outs1 d1] s show ?case by auto
qed

lemma follow_step_target:
  assumes "target d = None" and "follow_step e (d, outs) = (d', outs')"
  shows "target d' = None \<or> True \<in> set outs'"
proof (cases e)
  case (FollowTick t w)
  with assms show ?thesis by (auto simp add: FollowActorPlugin_OnUpdate_def Let_def)
next
  case (PickUp w req)
  with assms show ?thesis
    by (auto simp add: OnPickUpRosRequest_def Let_def split: prod.splits option.splits if_splits)
next
  case (DropOff g)
  with assms show ?thesis by (auto simp add: OnDropOffRosRequest_def split: if_splits)
next
  case ResetEv
  with assms show ?thesis by (auto simp add: Reset_def)
qed

lemma follow_run_target:
  "target d = None \<Longrightarrow> True \<notin> set (snd (follow_run es (d, outs))) \<Longrightarrow>
     target (fst (follow_run es (d, outs))) = None"
proof (induction es arbitrary: d outs)
  case Nil
  then show ?case by simp
next
  case (Cons e es)
  obtain d1 outs1 where s: "follow_step e (d, outs) = (d1, outs1)" by force
  from Cons.prems(2) s have n: "True \<notin> set (snd (follow_run es (d1, outs1)))" by simp
  with follow_run_outs[of outs1 es d1] have "True \<notin> set outs1" by auto
  with follow_step_target[OF Cons.prems(1) s] have "target d1 = None" by simp
  from Cons.IH[OF this n] s show ?case by simp
qed


text \<open>
  C6. A pick-up request returns true exactly when the guest name is the actor's, the
  robot name resolves to a model of the world, and the distance between actor and model
  in the horizontal plane is at most the pick-up radius. Otherwise it returns false, the
  response reports failure and the plugin (the target with it) is unchanged; on success
  the response reports success and the target is the resolved model.
\<close>

theorem OnPickUpRosRequest_result:
  "(fst (OnPickUpRosRequest w d req) \<longleftrightarrow>
      guest_name req = actorName (actor d) \<and>
      (\<exists>m. ModelByName w (robot_name req) = Some m \<and>
         sqrt ((vx (pos (actorPose (actor d))) - vx (pos (WorldPose w m)))\<^sup>2 +
               (vy (pos (actorPose (actor d))) - vy (pos (WorldPose w m)))\<^sup>2) \<le> pickUpRadius d)) \<and>
   (\<not> fst (OnPickUpRosRequest w d req) \<longrightarrow> OnPickUpRosRequest w d req = (False, d, False)) \<and>
   (fst (OnPickUpRosRequest w d req) \<longrightarrow>
      (\<exists>m. ModelByName w (robot_name req) = Some m \<and> m \<in> set (models w) \<and>
           GetName w m = robot_name req \<and>
           OnPickUpRosRequest w d req = (True, d\<lparr>target := Some m\<rparr>, True)))"
proof (cases "guest_name req = actorName (actor d)")
  case False
  then show ?thesis by (simp add: OnPickUpRosRequest_def)
next
  case g: True
  show ?thesis
  proof (cases "ModelByName w (robot_name req)")
    case None
    with g show ?thesis by (simp add: OnPickUpRosRequest_def)
  next
    case (Some m)
    note pl = Length_planar[of "pos (actorPose (actor d))" "pos (WorldPose w m)"]
    from ModelByName_Some[OF Some] g Some pl show ?thesis
      by (simp add: OnPickUpRosRequest_def Let_def not_less)
  qed
qed

theorem OnPickUpRosRequest_result_witness:
  "fst (OnPickUpRosRequest (robot_at \<lparr> vx = 1, vy = 0, vz = 3 \<rparr>) (Load guest no_sdf) pick_me_up) \<and>
   OnPickUpRosRequest (robot_at \<lparr> vx = 1, vy = 0, vz = 3 \<rparr>) (Load guest no_sdf) pick_me_up =
     (True, (Load guest no_sdf)\<lparr>target := Some 0\<rparr>, True) \<and>
   \<not> fst (OnPickUpRosRequest (robot_at \<lparr> vx = 5, vy = 0, vz = 1 \<rparr>) (Load guest no_sdf) pick_me_up) \<and>
   OnPickUpRosRequest (robot_at \<lparr> vx = 5, vy = 0, vz = 1 \<rparr>) (Load guest no_sdf) pick_me_up =
     (False, Load guest no_sdf, False) \<and>
   OnPickUpRosRequest (robot_at \<lparr> vx = 1, vy = 0, vz = 3 \<rparr>) (Load guest no_sdf)
       (pick_me_up\<lparr>guest_name := ''visitor''\<rparr>) = (False, Load guest no_sdf, False) \<and>
   OnPickUpRosRequest (robot_at \<lparr> vx = 1, vy = 0, vz = 3 \<rparr>) (Load guest no_sdf)
       (pick_me_up\<lparr>robot_name := ''cart''\<rparr>) = (False, Load guest no_sdf, False)"
  using OnPickUpRosRequest_result[of "robot_at \<lparr> vx = 1, vy = 0, vz = 3 \<rparr>" "Load guest no_sdf" pick_me_up]
    OnPickUpRosRequest_result[of "robot_at \<lparr> vx = 5, vy = 0, vz = 1 \<rparr>" "Load guest no_sdf" pick_me_up]
    OnPickUpRosRequest_result[of "robot_at \<lparr> vx = 1, vy = 0, vz = 3 \<rparr>" "Load guest no_sdf" "pick_me_up\<lparr>guest_name := ''visitor''\<rparr>"]
    OnPickUpRosRequest_result[of "robot_at \<lparr> vx = 1, vy = 0, vz = 3 \<rparr>" "Load guest no_sdf" "pick_me_up\<lparr>robot_name := ''cart''\<rparr>"]
  by (simp add: follow_examples Length_def sqrt25)


text \<open>
  C7, as amended. If at a tick a target is set, no obstacle is on the way, and the
  distance to the target exceeds both the minimum and the maximum distance, the tick
  clears the target and leaves the actor's pose as it was. Once the target is clear it
  stays clear through any ticks, drop-offs, resets and pick-up requests, as long as no
  pick-up request has returned true.
\<close>

theorem FollowActorPlugin_OnUpdate_disengage:
  "(target d = Some tgt \<and> \<not> ObstacleOnTheWay w d \<and>
    minDistance d < Length (vsub (pos (WorldPose w tgt)) (pos (actorPose (actor d)))) \<and>
    maxDistance d < Length (vsub (pos (WorldPose w tgt)) (pos (actorPose (actor d)))) \<longrightarrow>
      FollowActorPlugin_OnUpdate t w d = d\<lparr>lastUpdate := t, target := None\<rparr>) \<and>
   (target d = None \<and> True \<notin> set (snd (follow_run es (d, []))) \<longrightarrow>
      target (fst (follow_run es (d, []))) = None)"
  by (simp add: FollowActorPlugin_OnUpdate_def Let_def ObstacleOnTheWay_lastUpdate follow_run_target)

theorem FollowActorPlugin_OnUpdate_disengage_witness:
  "target ((Load guest no_sdf)\<lparr>target := Some 0\<rparr>) = Some 0 \<and>
   \<not> ObstacleOnTheWay (robot_at \<lparr> vx = 5, vy = 0, vz = 1 \<rparr>) ((Load guest no_sdf)\<lparr>target := Some 0\<rparr>) \<and>
   Length (vsub \<lparr> vx = 5, vy = 0, vz = 1 \<rparr> (pos (actorPose guest))) = 5 \<and>
   minDistance (Load guest no_sdf) < 5 \<and> maxDistance (Load guest no_sdf) = 4 \<and>
   velocity (Load guest no_sdf) = 8 / 10 \<and>
   FollowActorPlugin_OnUpdate 1 (robot_at \<lparr> vx = 5, vy = 0, vz = 1 \<rparr>) ((Load guest no_sdf)\<lparr>target := Some 0\<rparr>) =
     (Load guest no_sdf)\<lparr>lastUpdate := 1\<rparr> \<and>
   target ((Load guest no_sdf)\<lparr>lastUpdate := 1\<rparr>) = None \<and>
   snd (follow_run [FollowTick 2 (robot_at \<lparr> vx = 5, vy = 0, vz = 1 \<rparr>),
                    PickUp (robot_at \<lparr> vx = 5, vy = 0, vz = 1 \<rparr>) pick_me_up,
                    FollowTick 3 (robot_at \<lparr> vx = 2, vy = 0, vz = 1 \<rparr>)]
          ((Load guest no_sdf)\<lparr>lastUpdate := 1\<rparr>, [])) = [False] \<and>
   target (fst (follow_run [FollowTick 2 (robot_at \<lparr> vx = 5, vy = 0, vz = 1 \<rparr>),
                    PickUp (robot_at \<lparr> vx = 5, vy = 0, vz = 1 \<rparr>) pick_me_up,
                    FollowTick 3 (robot_at \<lparr> vx = 2, vy = 0, vz = 1 \<rparr>)]
          ((Load guest no_sdf)\<lparr>lastUpdate := 1\<rparr>, []))) = None"
  using FollowActorPlugin_OnUpdate_disengage[of "(Load guest no_sdf)\<lparr>target := Some 0\<rparr>" 0 "robot_at \<lparr> vx = 5, vy = 0, vz = 1 \<rparr>" 1
      "[]"]
    FollowActorPlugin_OnUpdate_disengage[of "(Load guest no_sdf)\<lparr>lastUpdate := 1\<rparr>" 0 "robot_at \<lparr> vx = 5, vy = 0, vz = 1 \<rparr>" 1
      "[FollowTick 2 (robot_at \<lparr> vx = 5, vy = 0, vz = 1 \<rparr>),
        PickUp (robot_at \<lparr> vx = 5, vy = 0, vz = 1 \<rparr>) pick_me_up,
        FollowTick 3 (robot_at \<lparr> vx = 2, vy = 0, vz = 1 \<rparr>)]"]
  by (simp add: follow_examples Length_def sqrt25)

theorem FollowActorPlugin_OnUpdate_disengage_counterexample:
  "target ((Load guest no_sdf)\<lparr>target := Some 0\<rparr>) = Some 0 \<and>
   Length (vsub (pos (WorldPose robot_and_table 0)) (pos (actorPose guest))) = 5 \<and>
   maxDistance (Load guest no_sdf) = 4 \<and>
   ObstacleOnTheWay robot_and_table ((Load guest no_sdf)\<lparr>target := Some 0\<rparr>) \<and>
   FollowActorPlugin_OnUpdate 1 robot_and_table ((Load guest no_sdf)\<lparr>target := Some 0\<rparr>) =
     (Load guest no_sdf)\<lparr>target := Some 0, lastUpdate := 1\<rparr>"
  by (simp add: follow_examples Length_def sqrt25)


text \<open>
  C8. With a target set, no obstacle on the way and a distance to the target above the
  minimum and at most the maximum, the tick moves the actor's horizontal position by the
  normalized direction times velocity times the time since the last update, keeps the
  vertical coordinate, sets the orientation to roll 90 degrees, pitch 0 and the yaw
  \<open>atan2\<close> of the direction plus 90 degrees, angle-normalized, and keeps the target. The
  normalized direction is the direction divided by its length whenever that length
  exceeds the library's tolerance.
\<close>

theorem FollowActorPlugin_OnUpdate_moves:
  "target d = Some tgt \<and> \<not> ObstacleOnTheWay w d \<and>
   minDistance d < Length (vsub (pos (WorldPose w tgt)) (pos (actorPose (actor d)))) \<and>
   Length (vsub (pos (WorldPose w tgt)) (pos (actorPose (actor d)))) \<le> maxDistance d \<longrightarrow>
     pos (actorPose (actor (FollowActorPlugin_OnUpdate t w d))) =
       \<lparr> vx = vx (pos (actorPose (actor d))) +
                vx (Normalize (vsub (pos (WorldPose w tgt)) (pos (actorPose (actor d))))) *
                  velocity d * (t - lastUpdate d),
         vy = vy (pos (actorPose (actor d))) +
                vy (Normalize (vsub (pos (WorldPose w tgt)) (pos (actorPose (actor d))))) *
                  velocity d * (t - lastUpdate d),
         vz = vz (pos (actorPose (actor d))) \<rparr> \<and>
     rot (actorPose (actor (FollowActorPlugin_OnUpdate t w d))) =
       Quaterniond (pi / 2) 0
         (Angle_Normalize
            (atan2 (vy (pos (WorldPose w tgt)) - vy (pos (actorPose (actor d))))
                   (vx (pos (WorldPose w tgt)) - vx (pos (actorPose (actor d)))) + pi / 2)) \<and>
     target (FollowActorPlugin_OnUpdate t w d) = Some tgt \<and>
     (1 / 1000000 < Length (vsub (pos (WorldPose w tgt)) (pos (actorPose (actor d)))) \<longrightarrow>
        Normalize (vsub (pos (WorldPose w tgt)) (pos (actorPose (actor d)))) =
          vscale (vsub (pos (WorldPose w tgt)) (pos (actorPose (actor d))))
            (1 / Length (vsub (pos (WorldPose w tgt)) (pos (actorPose (actor d))))))"
  by (auto simp add: FollowActorPlugin_OnUpdate_def Let_def ObstacleOnTheWay_lastUpdate
      vadd_def vscale_def vsub_def Normalize_def)


theorem FollowActorPlugin_OnUpdate_moves_witness:
  "target ((Load guest no_sdf)\<lparr>target := Some 0\<rparr>) = Some 0 \<and>
   \<not> ObstacleOnTheWay (robot_at \<lparr> vx = 2, vy = 0, vz = 1 \<rparr>) ((Load guest no_sdf)\<lparr>target := Some 0\<rparr>) \<and>
   Length (vsub \<lparr> vx = 2, vy = 0, vz = 1 \<rparr> (pos (actorPose guest))) = 2 \<and>
   minDistance (Load guest no_sdf) = 12 / 10 \<and> maxDistance (Load guest no_sdf) = 4 \<and>
   velocity (Load guest no_sdf) = 8 / 10 \<and>
   pos (actorPose guest) = \<lparr> vx = 0, vy = 0, vz = 1 \<rparr> \<and>
   actorPose (actor (FollowActorPlugin_OnUpdate 1 (robot_at \<lparr> vx = 2, vy = 0, vz = 1 \<rparr>)
       ((Load guest no_sdf)\<lparr>target := Some 0\<rparr>))) =
     \<lparr> pos = \<lparr> vx = 8 / 10, vy = 0, vz = 1 \<rparr>, rot = Quaterniond (pi / 2) 0 (pi / 2) \<rparr>"
  using FollowActorPlugin_OnUpdate_moves[of "(Load guest no_sdf)\<lparr>target := Some 0\<rparr>" 0 "robot_at \<lparr> vx = 2, vy = 0, vz = 1 \<rparr>" 1]
  by (simp add: follow_examples Length_def atan2_0_2 Angle_Normalize_half_pi)



text \<open>
  C9. With a target set and no obstacle on the way, the tick compares the full
  three-dimensional distance with the minimum and the maximum distance; a pick-up
  request's outcome depends on the horizontal offset only. A robot 1.75 m away
  horizontally can pick the guest up whether it is level with the guest or 4.2 m above;
  level, the guest follows it, and 4.2 m above, the guest stops following.
\<close>

theorem follow_spatial_pickup_planar:
  "(target d = Some tgt \<and> \<not> ObstacleOnTheWay w d \<longrightarrow>
      FollowActorPlugin_OnUpdate t w d =
        (if sqrt ((vx (pos (WorldPose w tgt)) - vx (pos (actorPose (actor d))))\<^sup>2 +
                  (vy (pos (WorldPose w tgt)) - vy (pos (actorPose (actor d))))\<^sup>2 +
                  (vz (pos (WorldPose w tgt)) - vz (pos (actorPose (actor d))))\<^sup>2) \<le> minDistance d
         then d\<lparr>lastUpdate := t\<rparr>
         else if sqrt ((vx (pos (WorldPose w tgt)) - vx (pos (actorPose (actor d))))\<^sup>2 +
                  (vy (pos (WorldPose w tgt)) - vy (pos (actorPose (actor d))))\<^sup>2 +
                  (vz (pos (WorldPose w tgt)) - vz (pos (actorPose (actor d))))\<^sup>2) > maxDistance d
         then d\<lparr>lastUpdate := t, target := None\<rparr>
         else (FollowActorPlugin_OnUpdate t w d)\<lparr>target := Some tgt\<rparr>)) \<and>
   (actorName (actor d) = actorName (actor d') \<and> pickUpRadius d = pickUpRadius d' \<and>
    ModelByName w (robot_name req) = Some m \<and> ModelByName w' (robot_name req) = Some m' \<and>
    vx (pos (actorPose (actor d))) - vx (pos (WorldPose w m)) =
      vx (pos (actorPose (actor d'))) - vx (pos (WorldPose w' m')) \<and>
    vy (pos (actorPose (actor d))) - vy (pos (WorldPose w m)) =
      vy (pos (actorPose (actor d'))) - vy (pos (WorldPose w' m')) \<longrightarrow>
      fst (OnPickUpRosRequest w d req) = fst (OnPickUpRosRequest w' d' req)) \<and>
   fst (OnPickUpRosRequest (robot_at \<lparr> vx = 7 / 4, vy = 0, vz = 1 \<rparr>) (Load guest no_sdf) pick_me_up) \<and>
   fst (OnPickUpRosRequest (robot_at \<lparr> vx = 7 / 4, vy = 0, vz = 26 / 5 \<rparr>) (Load guest no_sdf) pick_me_up) \<and>
   FollowActorPlugin_OnUpdate 1 (robot_at \<lparr> vx = 7 / 4, vy = 0, vz = 1 \<rparr>)
       ((Load guest no_sdf)\<lparr>target := Some 0\<rparr>) =
     (Load guest no_sdf)
       \<lparr>target := Some 0, lastUpdate := 1,
        actor := guest\<lparr>actorPose := \<lparr> pos = \<lparr> vx = 8 / 10, vy = 0, vz = 1 \<rparr>,
                                        rot = Quaterniond (pi / 2) 0 (pi / 2) \<rparr>,
                      scriptTime := 8 / 10 * (51 / 10)\<rparr>\<rparr> \<and>
   FollowActorPlugin_OnUpdate 1 (robot_at \<lparr> vx = 7 / 4, vy = 0, vz = 26 / 5 \<rparr>)
       ((Load guest no_sdf)\<lparr>target := Some 0\<rparr>) =
     (Load guest no_sdf)\<lparr>lastUpdate := 1\<rparr>"
proof (intro conjI impI)
  assume a: "target d = Some tgt \<and> \<not> ObstacleOnTheWay w d"
  let ?L = "sqrt ((vx (pos (WorldPose w tgt)) - vx (pos (actorPose (actor d))))\<^sup>2 +
                  (vy (pos (WorldPose w tgt)) - vy (pos (actorPose (actor d))))\<^sup>2 +
                  (vz (pos (WorldPose w tgt)) - vz (pos (actorPose (actor d))))\<^sup>2)"
  have L: "Length (vsub (pos (WorldPose w tgt)) (pos (actorPose (actor d)))) = ?L"
    by (rule Length_3d)
  from a show "FollowActorPlugin_OnUpdate t w d =
        (if ?L \<le> minDistance d then d\<lparr>lastUpdate := t\<rparr>
         else if ?L > maxDistance d then d\<lparr>lastUpdate := t, target := None\<rparr>
         else (FollowActorPlugin_OnUpdate t w d)\<lparr>target := Some tgt\<rparr>)"
    unfolding L[symmetric]
    by (simp add: FollowActorPlugin_OnUpdate_def Let_def ObstacleOnTheWay_lastUpdate)
next
  assume a: "actorName (actor d) = actorName (actor d') \<and> pickUpRadius d = pickUpRadius d' \<and>
    ModelByName w (robot_name req) = Some m \<and> ModelByName w' (robot_name req) = Some m' \<and>
    vx (pos (actorPose (actor d))) - vx (pos (WorldPose w m)) =
      vx (pos (actorPose (actor d'))) - vx (pos (WorldPose w' m')) \<and>
    vy (pos (actorPose (actor d))) - vy (pos (WorldPose w m)) =
      vy (pos (actorPose (actor d'))) - vy (pos (WorldPose w' m'))"
  then have "ModelByName w (robot_name req) = Some m" "ModelByName w' (robot_name req) = Some m'"
    by auto
  from OnPickUpRosRequest_fst[OF this(1), of d] OnPickUpRosRequest_fst[OF this(2), of d'] a
  show "fst (OnPickUpRosRequest w d req) = fst (OnPickUpRosRequest w' d' req)" by simp
next
  show "fst (OnPickUpRosRequest (robot_at \<lparr> vx = 7 / 4, vy = 0, vz = 1 \<rparr>) (Load guest no_sdf) pick_me_up)"
    by (simp add: follow_examples Length_axis)
  show "fst (OnPickUpRosRequest (robot_at \<lparr> vx = 7 / 4, vy = 0, vz = 26 / 5 \<rparr>) (Load guest no_sdf) pick_me_up)"
    by (simp add: follow_examples Length_axis)
  show "FollowActorPlugin_OnUpdate 1 (robot_at \<lparr> vx = 7 / 4, vy = 0, vz = 1 \<rparr>)
       ((Load guest no_sdf)\<lparr>target := Some 0\<rparr>) =
     (Load guest no_sdf)
       \<lparr>target := Some 0, lastUpdate := 1,
        actor := guest\<lparr>actorPose := \<lparr> pos = \<lparr> vx = 8 / 10, vy = 0, vz = 1 \<rparr>,
                                        rot = Quaterniond (pi / 2) 0 (pi / 2) \<rparr>,
                      scriptTime := 8 / 10 * (51 / 10)\<rparr>\<rparr>"
    by (simp add: follow_examples Length_axis atan2_def Angle_Normalize_def)
  show "FollowActorPlugin_OnUpdate 1 (robot_at \<lparr> vx = 7 / 4, vy = 0, vz = 26 / 5 \<rparr>)
       ((Load guest no_sdf)\<lparr>target := Some 0\<rparr>) =
     (Load guest no_sdf)\<lparr>lastUpdate := 1\<rparr>"
    by (simp add: follow_examples Length_5_12_13)
qed

theorem follow_spatial_pickup_planar_witness:
  "target ((Load guest no_sdf)\<lparr>target := Some 0\<rparr>) = Some 0 \<and>
   \<not> ObstacleOnTheWay (robot_at \<lparr> vx = 7 / 4, vy = 0, vz = 26 / 5 \<rparr>)
       ((Load guest no_sdf)\<lparr>target := Some 0\<rparr>) \<and>
   minDistance (Load guest no_sdf) < 91 / 20 \<and> maxDistance (Load guest no_sdf) < 91 / 20 \<and>
   FollowActorPlugin_OnUpdate 1 (robot_at \<lparr> vx = 7 / 4, vy = 0, vz = 26 / 5 \<rparr>)
       ((Load guest no_sdf)\<lparr>target := Some 0\<rparr>) =
     (Load guest no_sdf)\<lparr>target := Some 0, lastUpdate := 1, target := None\<rparr> \<and>
   actorName (actor (Load guest no_sdf)) = ''guest'' \<and>
   ModelByName (robot_at \<lparr> vx = 7 / 4, vy = 0, vz = 1 \<rparr>) (robot_name pick_me_up) = Some 0 \<and>
   ModelByName (robot_at \<lparr> vx = 7 / 4, vy = 0, vz = 26 / 5 \<rparr>) (robot_name pick_me_up) = Some 0 \<and>
   fst (OnPickUpRosRequest (robot_at \<lparr> vx = 7 / 4, vy = 0, vz = 1 \<rparr>) (Load guest no_sdf) pick_me_up) =
     fst (OnPickUpRosRequest (robot_at \<lparr> vx = 7 / 4, vy = 0, vz = 26 / 5 \<rparr>) (Load guest no_sdf) pick_me_up)"
proof -
  let ?A = "robot_at \<lparr> vx = 7 / 4, vy = 0, vz = 1 \<rparr>"
  let ?B = "robot_at \<lparr> vx = 7 / 4, vy = 0, vz = 26 / 5 \<rparr>"
  let ?D = "(Load guest no_sdf)\<lparr>target := Some 0\<rparr>"
  note T = follow_spatial_pickup_planar[where d = ?D and tgt = 0 and w = ?B and t = 1
      and d' = ?D and req = pick_me_up and m = 0 and w' = ?A and m' = 0]
  have h1: "target ?D = Some 0 \<and> \<not> ObstacleOnTheWay ?B ?D"
    by (simp add: follow_examples)
  have s: "sqrt ((vx (pos (WorldPose ?B 0)) - vx (pos (actorPose (actor ?D))))\<^sup>2 +
                 (vy (pos (WorldPose ?B 0)) - vy (pos (actorPose (actor ?D))))\<^sup>2 +
                 (vz (pos (WorldPose ?B 0)) - vz (pos (actorPose (actor ?D))))\<^sup>2) = 91 / 20"
    by (rule real_sqrt_unique) (simp_all add: follow_examples power2_eq_square)
  have mm: "minDistance ?D < 91 / 20" "maxDistance ?D < 91 / 20"
    by (simp_all add: Load_def no_sdf_def)
  from T[THEN conjunct1, THEN mp, OF h1] mm
  have u: "FollowActorPlugin_OnUpdate 1 ?B ?D = ?D\<lparr>lastUpdate := 1, target := None\<rparr>"
    unfolding s by simp
  have n: "ModelByName ?A (robot_name pick_me_up) = Some 0"
          "ModelByName ?B (robot_name pick_me_up) = Some 0"
    by (simp_all add: follow_examples)
  have p: "fst (OnPickUpRosRequest ?B ?D pick_me_up) = fst (OnPickUpRosRequest ?A ?D pick_me_up)"
    by (rule T[THEN conjunct2, THEN conjunct1, THEN mp]) (simp add: follow_examples)
  have q: "fst (OnPickUpRosRequest ?B ?D pick_me_up) = fst (OnPickUpRosRequest ?B (Load guest no_sdf) pick_me_up)"
          "fst (OnPickUpRosRequest ?A ?D pick_me_up) = fst (OnPickUpRosRequest ?A (Load guest no_sdf) pick_me_up)"
    by (simp_all add: OnPickUpRosRequest_def Let_def split: option.splits)
  have a: "actorName (actor (Load guest no_sdf)) = ''guest''" by (simp add: Load_def guest_def)
  from h1 mm u n p q a show ?thesis by simp
qed

end
